theory Spec2Isabelle
  imports Complex_Main
begin

section \<open>Readiness scorer (gis\_analysis.js)\<close>

text \<open>
  A nearest-line distance as \<open>nearestLineDistanceKm_local\<close> produces it: a number of
  kilometres, or the JavaScript value \<open>Infinity\<close> when no candidate line exists.
  Numbers are modelled as reals, so the arithmetic below is exact.
\<close>

datatype dist = Km real | Infinity

text \<open>
  \<^verbatim>\<open>const toIdx = d => (d===Infinity) ? 0 : (1 - Math.min(d/0.6, 1));\<close>
\<close>

fun toIdx :: "dist \<Rightarrow> real" where
  "toIdx Infinity = 0"
| "toIdx (Km d) = 1 - min (d / 0.6) 1"

text \<open>
  \<^verbatim>\<open>
  const weights = (wIdx===0 && sIdx===0) ? [0.0, 0.0, 1.0]
                 : (wIdx===0)            ? [0.0, 0.6, 0.4]
                 : (sIdx===0)            ? [0.6, 0.0, 0.4]
                 :                         [0.4, 0.4, 0.2];
  \<close>
\<close>

definition weights :: "real \<Rightarrow> real \<Rightarrow> real list" where
  "weights wIdx sIdx =
     (if wIdx = 0 \<and> sIdx = 0 then [0.0, 0.0, 1.0]
      else if wIdx = 0 then [0.0, 0.6, 0.4]
      else if sIdx = 0 then [0.6, 0.0, 0.4]
      else [0.4, 0.4, 0.2])"

definition readinessScore :: "dist \<Rightarrow> dist \<Rightarrow> real \<Rightarrow> real" where
  "readinessScore wDistKm sDistKm lenKm =
     (let wIdx = toIdx wDistKm;
          sIdx = toIdx sDistKm;
          dIdx = min (lenKm / 1.5) 1;
          ws = weights wIdx sIdx
      in ws ! 0 * wIdx + ws ! 1 * sIdx + ws ! 2 * dIdx)"

subsection \<open>The reference algorithm of the specification\<close>

text \<open>
  The scorer as the specification words it: a proximity index per distance, a density
  index, a weight triple chosen by which proximity indices vanish, and the weighted sum.
\<close>

definition spec_idx :: "dist \<Rightarrow> real" where
  "spec_idx d = (case d of Infinity \<Rightarrow> 0 | Km x \<Rightarrow> 1 - min (x / 0.6) 1)"

definition spec_density :: "real \<Rightarrow> real" where
  "spec_density lenKm = min (lenKm / 1.5) 1"

definition spec_weights :: "real \<Rightarrow> real \<Rightarrow> real \<times> real \<times> real" where
  "spec_weights w s =
     (if w = 0 \<and> s = 0 then (0, 0, 1)
      else if w = 0 \<and> s \<noteq> 0 then (0, 0.6, 0.4)
      else if s = 0 \<and> w \<noteq> 0 then (0.6, 0, 0.4)
      else (0.4, 0.4, 0.2))"

definition spec_score :: "dist \<Rightarrow> dist \<Rightarrow> real \<Rightarrow> real" where
  "spec_score wd sd lenKm =
     (case spec_weights (spec_idx wd) (spec_idx sd) of
        (a, b, c) \<Rightarrow> a * spec_idx wd + b * spec_idx sd + c * spec_density lenKm)"

text \<open>A distance of the scorer's stated input domain: unbounded, or a non-negative number.\<close>

fun nonneg_dist :: "dist \<Rightarrow> bool" where
  "nonneg_dist Infinity = True"
| "nonneg_dist (Km d) = (0 \<le> d)"

section \<open>GeoJSON data and the geometry library\<close>

text \<open>
  A GeoJSON geometry carries a \<open>type\<close> tag and coordinates. The coordinates of one line
  (or ring, or point) are kept abstract as \<open>'c\<close>; a multi-line-string holds a list of
  them. \<open>OtherGeometry\<close> stands for every type the code does not name.
\<close>

datatype 'c geometry =
    Point 'c
  | LineString 'c
  | MultiLineString "'c list"
  | Polygon 'c
  | OtherGeometry

text \<open>A JavaScript number, and an attribute value (number, string or null).\<close>

datatype jsnum = Num real | PosInf | NegInf | NaN

datatype jsval = JNumber jsnum | JString string | JNull

type_synonym properties = "string \<Rightarrow> jsval option"

record 'c feature =
  geometry :: "'c geometry option"
  properties :: "properties option"

text \<open>\<open>features\<close> is \<open>None\<close> when the object has no such member.\<close>

record 'f featureCollection =
  features :: "'f list option"

type_synonym bbox = "real \<times> real \<times> real \<times> real"

text \<open>
  The operations of the third-party geometry library (turf) that \<open>gis_analysis.js\<close>
  calls. They are parameters of the model: the code under verification is what the
  repository does with them.
\<close>

record 'c turf =
  turf_bbox :: "'c feature \<Rightarrow> bbox"
  turf_bboxPolygon :: "bbox \<Rightarrow> 'c feature"
  turf_buffer :: "'c feature \<Rightarrow> real \<Rightarrow> 'c feature"
  turf_booleanIntersects :: "'c feature \<Rightarrow> 'c feature \<Rightarrow> bool"
  turf_centroid :: "'c feature \<Rightarrow> 'c feature"
  turf_pointToLineDistance :: "'c feature \<Rightarrow> 'c feature \<Rightarrow> real"
  turf_length :: "'c feature \<Rightarrow> real"

text \<open>\<^verbatim>\<open>f.geometry?.type === 'LineString'\<close>\<close>

definition isLineString :: "'c feature \<Rightarrow> bool" where
  "isLineString f = (case geometry f of Some (LineString c) \<Rightarrow> True | _ \<Rightarrow> False)"

definition isMultiLineString :: "'c feature \<Rightarrow> bool" where
  "isMultiLineString f = (case geometry f of Some (MultiLineString cs) \<Rightarrow> True | _ \<Rightarrow> False)"

definition emptyFC :: "'f featureCollection" where
  "emptyFC = \<lparr>features = Some []\<rparr>"

text \<open>The features of a collection that may be null or lack the member: \<open>fc?.features\<close>.\<close>

definition featuresOf :: "'f featureCollection option \<Rightarrow> 'f list" where
  "featuresOf fc = (case fc of None \<Rightarrow> [] | Some c \<Rightarrow> (case features c of None \<Rightarrow> [] | Some fs \<Rightarrow> fs))"

section \<open>Spatial candidate filter and local measurements (gis\_analysis.js)\<close>

text \<open>
  \<^verbatim>\<open>
  function linesNearPolygon(poly, lineFC, radiusKm){
    if (!lineFC?.features?.length) return {type:'FeatureCollection', features:[]};
    const bb   = turf.bbox(poly);
    const box  = turf.bboxPolygon(bb);
    const buf  = turf.buffer(box, radiusKm, {units:'kilometers'});
    const near = [];
    for (const f of lineFC.features){
      if (f.geometry?.type === 'LineString' && turf.booleanIntersects(buf, f)){
        near.push(f);
      }
    }
    return {type:'FeatureCollection', features: near};
  }
  \<close>
\<close>

definition linesNearPolygon ::
  "'c turf \<Rightarrow> 'c feature \<Rightarrow> 'c feature featureCollection option \<Rightarrow> real
     \<Rightarrow> 'c feature featureCollection" where
  "linesNearPolygon T poly lineFC radiusKm =
     (if featuresOf lineFC = [] then emptyFC
      else
        let bb = turf_bbox T poly;
            box = turf_bboxPolygon T bb;
            buf = turf_buffer T box radiusKm;
            near = fold (\<lambda>f near.
                      if isLineString f \<and> turf_booleanIntersects T buf f then near @ [f]
                      else near)
                    (featuresOf lineFC) []
        in \<lparr>features = Some near\<rparr>)"

text \<open>
  \<^verbatim>\<open>
  function nearestLineDistanceKm_local(point, lineFC){
    if (!lineFC?.features?.length) return Infinity;
    let min = Infinity;
    for (const f of lineFC.features){
      const d = turf.pointToLineDistance(point, f, {units:'kilometers'});
      if (d < min) min = d;
    }
    return min;
  }
  \<close>
\<close>

fun lessDist :: "real \<Rightarrow> dist \<Rightarrow> bool" where
  "lessDist d Infinity = True"
| "lessDist d (Km m) = (d < m)"

definition nearestLineDistanceKm_local ::
  "'c turf \<Rightarrow> 'c feature \<Rightarrow> 'c feature featureCollection option \<Rightarrow> dist" where
  "nearestLineDistanceKm_local T point lineFC =
     (if featuresOf lineFC = [] then Infinity
      else fold (\<lambda>f m. let d = turf_pointToLineDistance T point f
                        in if lessDist d m then Km d else m)
             (featuresOf lineFC) Infinity)"

text \<open>
  \<^verbatim>\<open>
  /** Sum of full line lengths (km) intersecting a polygon buffer. */
  function sumLengthWithinBufferKm_local(poly, waterFC, sewerFC, bufferKm){
    const buf = turf.buffer(poly, bufferKm, {units:'kilometers'});
    let total = 0;
    const add = (fc)=>{
      if (!fc?.features) return;
      for (const f of fc.features){
        if (f.geometry?.type === 'LineString' && turf.booleanIntersects(buf, f)){
          total += turf.length(f, {units:'kilometers'});
        }
      }
    };
    add(waterFC); add(sewerFC);
    return total;
  }
  \<close>
\<close>

definition add_lines ::
  "'c turf \<Rightarrow> 'c feature \<Rightarrow> 'c feature featureCollection option \<Rightarrow> real \<Rightarrow> real" where
  "add_lines T buf fc total0 =
     fold (\<lambda>f tot.
             if isLineString f \<and> turf_booleanIntersects T buf f then tot + turf_length T f
             else tot)
       (featuresOf fc) total0"

definition sumLengthWithinBufferKm_local ::
  "'c turf \<Rightarrow> 'c feature \<Rightarrow> 'c feature featureCollection option
     \<Rightarrow> 'c feature featureCollection option \<Rightarrow> real \<Rightarrow> real" where
  "sumLengthWithinBufferKm_local T poly waterFC sewerFC bufferKm =
     (let buf = turf_buffer T poly bufferKm
      in add_lines T buf sewerFC (add_lines T buf waterFC 0))"

text \<open>
  The analysis of one growth area, as the body of the loop of \<open>main\<close> computes it:
  \<^verbatim>\<open>
  const waterNear = linesNearPolygon(area, water, 2);
  const sewerNear = linesNearPolygon(area, wastewater, 2);
  const center = turf.centroid(area);
  const wDist  = nearestLineDistanceKm_local(center, waterNear);
  const sDist  = nearestLineDistanceKm_local(center, sewerNear);
  const pipeLenKm = sumLengthWithinBufferKm_local(area, waterNear, sewerNear, 0.25);
  const readiness = readinessScore(wDist, sDist, pipeLenKm);
  \<close>
\<close>

record readinessResult =
  waterDist :: dist
  sewerDist :: dist
  pipeLen :: real
  readiness :: real

definition analyseArea ::
  "'c turf \<Rightarrow> 'c feature \<Rightarrow> 'c feature featureCollection option
     \<Rightarrow> 'c feature featureCollection option \<Rightarrow> readinessResult" where
  "analyseArea T area water wastewater =
     (let waterNear = linesNearPolygon T area water 2;
          sewerNear = linesNearPolygon T area wastewater 2;
          center = turf_centroid T area;
          wDist = nearestLineDistanceKm_local T center (Some waterNear);
          sDist = nearestLineDistanceKm_local T center (Some sewerNear);
          pipeLenKm = sumLengthWithinBufferKm_local T area (Some waterNear) (Some sewerNear) 0.25
      in \<lparr>waterDist = wDist, sewerDist = sDist, pipeLen = pipeLenKm,
           readiness = readinessScore wDist sDist pipeLenKm\<rparr>)"

text \<open>
  The contract the specification states for the buffer: a larger radius produces a
  footprint that contains the smaller radius's footprint, so whatever intersects the
  smaller buffer intersects the larger one.
\<close>

definition buffer_monotone :: "'c turf \<Rightarrow> bool" where
  "buffer_monotone T =
     (\<forall>g r1 r2 f. r1 \<le> r2 \<longrightarrow> turf_booleanIntersects T (turf_buffer T g r1) f
        \<longrightarrow> turf_booleanIntersects T (turf_buffer T g r2) f)"

subsection \<open>A one-dimensional geometry for concrete inputs\<close>

text \<open>
  To run the code on concrete inputs the library operations are instantiated with the
  geometry of a straight road measured in kilometres: the coordinates of a line, a
  polygon or a point are an interval \<open>(lo, hi)\<close> of positions along the road.
\<close>

type_synonym interval = "real \<times> real"

definition parts :: "interval feature \<Rightarrow> interval list" where
  "parts f = (case geometry f of
                None \<Rightarrow> []
              | Some (Point c) \<Rightarrow> [c]
              | Some (LineString c) \<Rightarrow> [c]
              | Some (MultiLineString cs) \<Rightarrow> cs
              | Some (Polygon c) \<Rightarrow> [c]
              | Some OtherGeometry \<Rightarrow> [])"

definition road_bbox :: "interval feature \<Rightarrow> bbox" where
  "road_bbox f = (case parts f of
                    [] \<Rightarrow> (0, 0, 0, 0)
                  | p # ps \<Rightarrow> (fold min (map fst ps) (fst p), 0, fold max (map snd ps) (snd p), 0))"

definition road_bboxPolygon :: "bbox \<Rightarrow> interval feature" where
  "road_bboxPolygon bb = (case bb of (w, s, e, n) \<Rightarrow>
     \<lparr>geometry = Some (Polygon (w, e)), properties = None\<rparr>)"

definition road_buffer :: "interval feature \<Rightarrow> real \<Rightarrow> interval feature" where
  "road_buffer f r = (case road_bbox f of (w, s, e, n) \<Rightarrow>
     \<lparr>geometry = Some (Polygon (w - r, e + r)), properties = None\<rparr>)"

definition overlaps :: "interval \<Rightarrow> interval \<Rightarrow> bool" where
  "overlaps p q = (fst p \<le> snd q \<and> fst q \<le> snd p)"

definition road_booleanIntersects :: "interval feature \<Rightarrow> interval feature \<Rightarrow> bool" where
  "road_booleanIntersects a b = list_ex (\<lambda>p. list_ex (overlaps p) (parts b)) (parts a)"

definition road_centroid :: "interval feature \<Rightarrow> interval feature" where
  "road_centroid f = (case road_bbox f of (w, s, e, n) \<Rightarrow>
     \<lparr>geometry = Some (Point ((w + e) / 2, (w + e) / 2)), properties = None\<rparr>)"

definition road_pointToLineDistance :: "interval feature \<Rightarrow> interval feature \<Rightarrow> real" where
  "road_pointToLineDistance pt line =
     (case (road_bbox pt, road_bbox line) of
        ((p, _, _, _), (w, _, e, _)) \<Rightarrow> max 0 (max (w - p) (p - e)))"

definition road_length :: "interval feature \<Rightarrow> real" where
  "road_length f = sum_list (map (\<lambda>p. snd p - fst p) (parts f))"

text \<open>The length of the portion of a feature that lies inside a region.\<close>

definition road_lengthWithin :: "interval feature \<Rightarrow> interval feature \<Rightarrow> real" where
  "road_lengthWithin region f = (case road_bbox region of (w, s, e, n) \<Rightarrow>
     sum_list (map (\<lambda>p. max 0 (min (snd p) e - max (fst p) w)) (parts f)))"

definition road :: "interval turf" where
  "road = \<lparr>turf_bbox = road_bbox, turf_bboxPolygon = road_bboxPolygon,
           turf_buffer = road_buffer, turf_booleanIntersects = road_booleanIntersects,
           turf_centroid = road_centroid,
           turf_pointToLineDistance = road_pointToLineDistance,
           turf_length = road_length\<rparr>"

definition lineFeature :: "real \<Rightarrow> real \<Rightarrow> interval feature" where
  "lineFeature lo hi = \<lparr>geometry = Some (LineString (lo, hi)), properties = None\<rparr>"

definition polygonFeature :: "real \<Rightarrow> real \<Rightarrow> interval feature" where
  "polygonFeature lo hi = \<lparr>geometry = Some (Polygon (lo, hi)), properties = None\<rparr>"

definition multiLineFeature :: "interval list \<Rightarrow> interval feature" where
  "multiLineFeature cs = \<lparr>geometry = Some (MultiLineString cs), properties = None\<rparr>"

text \<open>
  The end-to-end example of the specification: a test polygon, one 1 km water line at
  0.2 km from the polygon's centroid with 0.8 km of it inside the 250 m buffer of the
  polygon, and no wastewater network.
\<close>

definition exampleArea :: "interval feature" where
  "exampleArea = polygonFeature 0 1.5"

definition exampleLine :: "interval feature" where
  "exampleLine = lineFeature 0.95 1.95"

definition exampleWater :: "interval feature featureCollection option" where
  "exampleWater = Some \<lparr>features = Some [exampleLine]\<rparr>"

definition exampleWastewater :: "interval feature featureCollection option" where
  "exampleWastewater = Some \<lparr>features = Some []\<rparr>"

section \<open>Viewport aggregator (app.js)\<close>

datatype js_error = Error string

text \<open>
  \<open>Number(x)\<close> and \<open>Number.isFinite\<close> on an attribute value; the conversion of a string
  is a parameter. A missing attribute is \<open>undefined\<close>, which converts to \<open>NaN\<close>.
\<close>

fun toNumber :: "(string \<Rightarrow> jsnum) \<Rightarrow> jsval option \<Rightarrow> jsnum" where
  "toNumber parse None = NaN"
| "toNumber parse (Some JNull) = Num 0"
| "toNumber parse (Some (JNumber n)) = n"
| "toNumber parse (Some (JString s)) = parse s"

text \<open>The running total and the optional map from diameter to length.\<close>

type_synonym aggregate = "real \<times> (real \<Rightarrow> real option) option"

text \<open>\<^verbatim>\<open>byDiameterMap.get(d) || 0\<close>\<close>

definition getOrZero :: "(real \<Rightarrow> real option) \<Rightarrow> real \<Rightarrow> real" where
  "getOrZero m d = (case m d of None \<Rightarrow> 0 | Some x \<Rightarrow> x)"

text \<open>
  \<^verbatim>\<open>
  const addLen = (coords) => {
    const part = { type:'Feature', geometry:{ type:'LineString', coordinates: coords },
                   properties: f.properties || {} };
    const clipped = turf.bboxClip(part, bbox);
    const km = turf.length(clipped, { units: 'kilometers' });
    totalKm += km;
    if (byDiameterMap) {
      const d = Number(part.properties?.nominaldiameter);
      if (Number.isFinite(d)) byDiameterMap.set(d, (byDiameterMap.get(d) || 0) + km);
    }
  };
  \<close>
  Clipping and measuring may throw; both come before the first assignment, so a throw
  leaves the aggregate as it was.
\<close>

definition addLen ::
  "('c \<Rightarrow> 'b \<Rightarrow> js_error + 'k) \<Rightarrow> ('k \<Rightarrow> js_error + real) \<Rightarrow> (string \<Rightarrow> jsnum)
     \<Rightarrow> 'b \<Rightarrow> properties option \<Rightarrow> 'c \<Rightarrow> aggregate \<Rightarrow> js_error + aggregate" where
  "addLen bboxClip len parse bbox props coords agg =
     (case bboxClip coords bbox of
        Inl e \<Rightarrow> Inl e
      | Inr clipped \<Rightarrow>
          (case len clipped of
             Inl e \<Rightarrow> Inl e
           | Inr km \<Rightarrow>
               (case agg of (totalKm, byDiameterMap) \<Rightarrow>
                  Inr (totalKm + km,
                       (case byDiameterMap of
                          None \<Rightarrow> None
                        | Some m \<Rightarrow>
                            (case toNumber parse (case props of None \<Rightarrow> None
                                                  | Some ps \<Rightarrow> ps ''nominaldiameter'') of
                               Num d \<Rightarrow> Some (m(d \<mapsto> getOrZero m d + km))
                             | _ \<Rightarrow> Some m))))))"

text \<open>
  \<^verbatim>\<open>for (const coords of f.geometry.coordinates) addLen(coords);\<close>
  The loop ends at the first throw; the aggregate then holds what the parts before it
  added.
\<close>

fun addLens ::
  "('c \<Rightarrow> aggregate \<Rightarrow> js_error + aggregate) \<Rightarrow> 'c list \<Rightarrow> aggregate
     \<Rightarrow> js_error option \<times> aggregate" where
  "addLens add [] agg = (None, agg)"
| "addLens add (coords # rest) agg =
     (case add coords agg of
        Inl e \<Rightarrow> (Some e, agg)
      | Inr agg' \<Rightarrow> addLens add rest agg')"

text \<open>
  The body of the \<open>try\<close> block for one element of \<open>feats\<close> (\<open>None\<close> is a null element):
  \<^verbatim>\<open>
  if (!f || !f.geometry) continue;
  if (f.geometry.type === 'LineString') addLen(f.geometry.coordinates);
  else if (f.geometry.type === 'MultiLineString') {
    for (const coords of f.geometry.coordinates) addLen(coords);
  }
  \<close>
  It returns the exception that ended it, if any, with the aggregate at that moment.
\<close>

definition tryBody ::
  "('c \<Rightarrow> 'b \<Rightarrow> js_error + 'k) \<Rightarrow> ('k \<Rightarrow> js_error + real) \<Rightarrow> (string \<Rightarrow> jsnum)
     \<Rightarrow> 'b \<Rightarrow> 'c feature option \<Rightarrow> aggregate \<Rightarrow> js_error option \<times> aggregate" where
  "tryBody bboxClip len parse bbox f agg =
     (case f of
        None \<Rightarrow> (None, agg)
      | Some ft \<Rightarrow>
          (case geometry ft of
             None \<Rightarrow> (None, agg)
           | Some (LineString coords) \<Rightarrow>
               addLens (addLen bboxClip len parse bbox (properties ft)) [coords] agg
           | Some (MultiLineString coordinates) \<Rightarrow>
               addLens (addLen bboxClip len parse bbox (properties ft)) coordinates agg
           | Some _ \<Rightarrow> (None, agg)))"

text \<open>
  \<^verbatim>\<open>
  function lengthInViewKm(featureCollection, bbox, byDiameterMap = null) {
    if (!featureCollection) return 0;
    const feats = featureCollection.features || [];
    let totalKm = 0;
    for (const f of feats) {
      try { ... } catch { /* skip invalid */ }
    }
    return totalKm;
  }
  \<close>
  The result is the returned total together with the map the call has updated in place.
\<close>

definition lengthInViewKm ::
  "('c \<Rightarrow> 'b \<Rightarrow> js_error + 'k) \<Rightarrow> ('k \<Rightarrow> js_error + real) \<Rightarrow> (string \<Rightarrow> jsnum)
     \<Rightarrow> 'c feature option featureCollection option \<Rightarrow> 'b
     \<Rightarrow> (real \<Rightarrow> real option) option \<Rightarrow> aggregate" where
  "lengthInViewKm bboxClip len parse featureCollection bbox byDiameterMap =
     (case featureCollection of
        None \<Rightarrow> (0, byDiameterMap)
      | Some fc \<Rightarrow>
          (let feats = (case features fc of None \<Rightarrow> [] | Some fs \<Rightarrow> fs)
           in fold (\<lambda>f agg. snd (tryBody bboxClip len parse bbox f agg)) feats (0, byDiameterMap)))"

subsection \<open>What a tolerant pass is expected to count\<close>

text \<open>The component lines of an element of the collection that the pass looks at.\<close>

definition componentLines :: "'c feature option \<Rightarrow> 'c list" where
  "componentLines f =
     (case f of
        None \<Rightarrow> []
      | Some ft \<Rightarrow>
          (case geometry ft of
             Some (LineString c) \<Rightarrow> [c]
           | Some (MultiLineString cs) \<Rightarrow> cs
           | _ \<Rightarrow> []))"

text \<open>The clipped length of one component line, when clipping and measuring succeed.\<close>

definition clippedKm ::
  "('c \<Rightarrow> 'b \<Rightarrow> js_error + 'k) \<Rightarrow> ('k \<Rightarrow> js_error + real) \<Rightarrow> 'b \<Rightarrow> 'c \<Rightarrow> real option" where
  "clippedKm bboxClip len bbox c =
     (case bboxClip c bbox of
        Inl e \<Rightarrow> None
      | Inr clipped \<Rightarrow> (case len clipped of Inl e \<Rightarrow> None | Inr km \<Rightarrow> Some km))"

text \<open>
  The lengths an element contributes: those of its component lines up to, and not
  including, the first one whose clipping or measuring throws.
\<close>

definition countedKm ::
  "('c \<Rightarrow> 'b \<Rightarrow> js_error + 'k) \<Rightarrow> ('k \<Rightarrow> js_error + real) \<Rightarrow> 'b
     \<Rightarrow> 'c feature option \<Rightarrow> real list" where
  "countedKm bboxClip len bbox f =
     map (\<lambda>c. the (clippedKm bboxClip len bbox c))
       (takeWhile (\<lambda>c. clippedKm bboxClip len bbox c \<noteq> None) (componentLines f))"

text \<open>The diameter bin of an element, when its attribute converts to a finite number.\<close>

definition binOf :: "(string \<Rightarrow> jsnum) \<Rightarrow> 'c feature option \<Rightarrow> real option" where
  "binOf parse f =
     (case f of
        None \<Rightarrow> None
      | Some ft \<Rightarrow>
          (case toNumber parse (case properties ft of None \<Rightarrow> None
                                | Some ps \<Rightarrow> ps ''nominaldiameter'') of
             Num d \<Rightarrow> Some d
           | _ \<Rightarrow> None))"

text \<open>The lengths that a list of elements contributes to the bin of diameter \<open>d\<close>.\<close>

definition binKm ::
  "('c \<Rightarrow> 'b \<Rightarrow> js_error + 'k) \<Rightarrow> ('k \<Rightarrow> js_error + real) \<Rightarrow> (string \<Rightarrow> jsnum) \<Rightarrow> 'b
     \<Rightarrow> real \<Rightarrow> 'c feature option list \<Rightarrow> real list" where
  "binKm bboxClip len parse bbox d feats =
     concat (map (countedKm bboxClip len bbox) (filter (\<lambda>f. binOf parse f = Some d) feats))"

text \<open>
  The diameter map after a pass over \<open>feats\<close>: a bin that received a length holds its
  former value (or 0) plus the lengths received; every other bin is untouched.
\<close>

definition binsAfter ::
  "('c \<Rightarrow> 'b \<Rightarrow> js_error + 'k) \<Rightarrow> ('k \<Rightarrow> js_error + real) \<Rightarrow> (string \<Rightarrow> jsnum) \<Rightarrow> 'b
     \<Rightarrow> 'c feature option list \<Rightarrow> (real \<Rightarrow> real option) \<Rightarrow> real \<Rightarrow> real option" where
  "binsAfter bboxClip len parse bbox feats m d =
     (if binKm bboxClip len parse bbox d feats = [] then m d
      else Some (getOrZero m d + sum_list (binKm bboxClip len parse bbox d feats)))"

text \<open>The effect of one element on the diameter map: its bin receives its lengths.\<close>

definition binUpd ::
  "real option \<Rightarrow> real list \<Rightarrow> (real \<Rightarrow> real option) \<Rightarrow> real \<Rightarrow> real option" where
  "binUpd b kms m d =
     (if b = Some d \<and> kms \<noteq> [] then Some (getOrZero m d + sum_list kms) else m d)"

text \<open>
  A concrete pass: the coordinates of a line are a number, clipping throws on a negative
  one and otherwise cuts it at the bound, and the length of a clipped line is that number.
\<close>

definition sampleClip :: "real \<Rightarrow> real \<Rightarrow> js_error + real" where
  "sampleClip c bound = (if c < 0 then Inl (Error ''invalid line'') else Inr (min c bound))"

definition sampleLen :: "real \<Rightarrow> js_error + real" where
  "sampleLen k = Inr k"

definition sampleParse :: "string \<Rightarrow> jsnum" where
  "sampleParse s = (if s = ''150'' then Num 150 else NaN)"

definition sampleProps :: "jsval \<Rightarrow> properties option" where
  "sampleProps v = Some (\<lambda>k. if k = ''nominaldiameter'' then Some v else None)"

definition sampleFeats :: "real feature option list" where
  "sampleFeats =
     [None,
      Some \<lparr>geometry = None, properties = None\<rparr>,
      Some \<lparr>geometry = Some (Polygon 7), properties = None\<rparr>,
      Some \<lparr>geometry = Some (LineString (- 1)), properties = sampleProps (JNumber (Num 100))\<rparr>,
      Some \<lparr>geometry = Some (MultiLineString [1, - 1, 2]),
            properties = sampleProps (JNumber (Num 100))\<rparr>,
      Some \<lparr>geometry = Some (LineString 3), properties = sampleProps (JString ''150'')\<rparr>,
      Some \<lparr>geometry = Some (LineString 5), properties = None\<rparr>]"

text \<open>Concrete collections along the road for the candidate filter.\<close>

definition sampleMultiLine :: "interval feature" where
  "sampleMultiLine = multiLineFeature [(0.5, 0.6), (0.7, 0.9)]"

definition sampleNetwork :: "interval feature featureCollection option" where
  "sampleNetwork =
     Some \<lparr>features = Some [lineFeature 0.95 1.95, sampleMultiLine, lineFeature 3 4,
                             lineFeature 10 11]\<rparr>"

section \<open>Paged retrieval coordinator (app.js)\<close>

text \<open>
  One page request, as \<open>queryAllFeatures\<close> configures it. The bounds of the map that each
  request also carries are part of the source.
\<close>

record query =
  q_returnGeometry :: bool
  q_where :: "string option"
  q_limit :: nat
  q_offset :: nat

definition pageSize :: nat where
  "pageSize = 2000"

text \<open>\<open>String.prototype.trim\<close> on the white space of ASCII.\<close>

definition isWhiteSpace :: "char \<Rightarrow> bool" where
  "isWhiteSpace c = (c \<in> set [CHR '' '', CHR 0x09, CHR 0x0A, CHR 0x0B, CHR 0x0C, CHR 0x0D])"

definition trim :: "string \<Rightarrow> string" where
  "trim s = rev (dropWhile isWhiteSpace (rev (dropWhile isWhiteSpace s)))"

text \<open>\<^verbatim>\<open>if (where && where.trim()) q.where(where);\<close>\<close>

definition whereOf :: "string option \<Rightarrow> string option" where
  "whereOf wh = (case wh of
                   None \<Rightarrow> None
                 | Some w \<Rightarrow> if w \<noteq> [] \<and> trim w \<noteq> [] then Some w else None)"

definition pageQuery :: "bool \<Rightarrow> string option \<Rightarrow> nat \<Rightarrow> query" where
  "pageQuery returnGeometry wh offset =
     \<lparr>q_returnGeometry = returnGeometry, q_where = whereOf wh,
      q_limit = pageSize, q_offset = offset\<rparr>"

text \<open>
  \<^verbatim>\<open>
  q.run((err, featureCollection) => {
    if (err) return reject(err);
    resolve(featureCollection || { type: 'FeatureCollection', features: [] });
  });
  ...
  const batch = fc.features || [];
  \<close>
  The answer of the source is an error or a collection that may be null.
\<close>

definition batchOf :: "'f featureCollection option \<Rightarrow> 'f list" where
  "batchOf featureCollection =
     (let fc = (case featureCollection of None \<Rightarrow> emptyFC | Some c \<Rightarrow> c)
      in case features fc of None \<Rightarrow> [] | Some b \<Rightarrow> b)"

text \<open>
  \<^verbatim>\<open>
  async function queryAllFeatures(url, { returnGeometry = true, where = null } = {}) {
    const pageSize = 2000;
    let offset = 0;
    const all = [];
    while (true) {
      const q = L.esri.query({ url });
      q.intersects(map.getBounds());
      q.returnGeometry(returnGeometry);
      if (where && where.trim()) q.where(where);
      q.limit(pageSize);
      q.offset(offset);
      const fc = await new Promise((resolve, reject) => { q.run(...) });
      const batch = fc.features || [];
      all.push(...batch);
      if (batch.length < pageSize) break;
      offset += pageSize;
    }
    return { type: 'FeatureCollection', features: all };
  }
  \<close>
  The loop has no bound of its own, so it is a partial function: \<open>None\<close> is a run that
  never returns. A run that returns gives the requests it has made, in order, and either
  the error that rejected it or the collection it resolved with.
\<close>

partial_function (option) queryLoop ::
  "(query \<Rightarrow> 'e + 'f featureCollection option) \<Rightarrow> bool \<Rightarrow> string option \<Rightarrow> nat
     \<Rightarrow> 'f list \<Rightarrow> query list \<Rightarrow> (query list \<times> ('e + 'f featureCollection)) option" where
  "queryLoop run returnGeometry wh offset all requests =
     (case run (pageQuery returnGeometry wh offset) of
        Inl err \<Rightarrow> Some (requests @ [pageQuery returnGeometry wh offset], Inl err)
      | Inr featureCollection \<Rightarrow>
          if length (batchOf featureCollection) < pageSize
          then Some (requests @ [pageQuery returnGeometry wh offset],
                     Inr \<lparr>features = Some (all @ batchOf featureCollection)\<rparr>)
          else queryLoop run returnGeometry wh (offset + pageSize)
                 (all @ batchOf featureCollection)
                 (requests @ [pageQuery returnGeometry wh offset]))"

definition queryAllFeatures ::
  "(query \<Rightarrow> 'e + 'f featureCollection option) \<Rightarrow> bool \<Rightarrow> string option
     \<Rightarrow> (query list \<times> ('e + 'f featureCollection)) option" where
  "queryAllFeatures run returnGeometry wh = queryLoop run returnGeometry wh 0 [] []"

text \<open>The features that the page at a given offset delivers (none when it fails).\<close>

definition pageAt ::
  "(query \<Rightarrow> 'e + 'f featureCollection option) \<Rightarrow> bool \<Rightarrow> string option \<Rightarrow> nat \<Rightarrow> 'f list" where
  "pageAt run returnGeometry wh i =
     (case run (pageQuery returnGeometry wh (i * pageSize)) of
        Inl err \<Rightarrow> []
      | Inr featureCollection \<Rightarrow> batchOf featureCollection)"

text \<open>Page \<open>i\<close> is answered with exactly \<open>pageSize\<close> features.\<close>

definition fullPage ::
  "(query \<Rightarrow> 'e + 'f featureCollection option) \<Rightarrow> bool \<Rightarrow> string option \<Rightarrow> nat \<Rightarrow> bool" where
  "fullPage run returnGeometry wh i =
     (case run (pageQuery returnGeometry wh (i * pageSize)) of
        Inl err \<Rightarrow> False
      | Inr featureCollection \<Rightarrow> length (batchOf featureCollection) = pageSize)"

text \<open>Page \<open>i\<close> is answered with strictly fewer than \<open>pageSize\<close> features.\<close>

definition shortPage ::
  "(query \<Rightarrow> 'e + 'f featureCollection option) \<Rightarrow> bool \<Rightarrow> string option \<Rightarrow> nat \<Rightarrow> bool" where
  "shortPage run returnGeometry wh i =
     (case run (pageQuery returnGeometry wh (i * pageSize)) of
        Inl err \<Rightarrow> False
      | Inr featureCollection \<Rightarrow> length (batchOf featureCollection) < pageSize)"

text \<open>
  A concrete source of 4001 features: two full pages and a last page of one feature; and
  a source whose third page fails.
\<close>

definition sampleSource :: "query \<Rightarrow> string + nat featureCollection option" where
  "sampleSource q =
     (if q_offset q = 0 then Inr (Some \<lparr>features = Some (replicate 2000 1)\<rparr>)
      else if q_offset q = 2000 then Inr (Some \<lparr>features = Some (replicate 2000 2)\<rparr>)
      else if q_offset q = 4000 then Inr (Some \<lparr>features = Some [3]\<rparr>)
      else Inr None)"

definition failingSource :: "query \<Rightarrow> string + nat featureCollection option" where
  "failingSource q =
     (if q_offset q = 0 then Inr (Some \<lparr>features = Some (replicate 2000 1)\<rparr>)
      else if q_offset q = 2000 then Inr (Some \<lparr>features = Some (replicate 2000 2)\<rparr>)
      else Inl ''503'')"

definition emptySource :: "query \<Rightarrow> string + nat featureCollection option" where
  "emptySource q = Inr (Some \<lparr>features = Some []\<rparr>)"

section \<open>Filter input (app.js)\<close>

text \<open>
  What a handler does to the outside: it alerts the user, it asks a layer of the data
  source for the features matching a where clause (\<open>setWhere\<close>), or it writes the hint
  line of the filter form.
\<close>

datatype effect = Alert string | SetWhere string string | Hint string

fun isFinite :: "jsnum \<Rightarrow> bool" where
  "isFinite (Num x) = True"
| "isFinite _ = False"

text \<open>\<open>v < 0\<close> on JavaScript numbers.\<close>

fun lessZero :: "jsnum \<Rightarrow> bool" where
  "lessZero (Num x) = (x < 0)"
| "lessZero NegInf = True"
| "lessZero _ = False"

text \<open>
  \<^verbatim>\<open>
  function applyDiameterFilter(){
    const v = Number(diamMinInput.value);
    if (!Number.isFinite(v) || v < 0){
      alert('Enter a non-negative diameter in mm (e.g., 150).');
      return;
    }
    const where = `nominaldiameter >= ${v}`;
    waterMains.setWhere(where, () => { ... });
  }
  \<close>
  The conversions between strings and numbers are parameters.
\<close>

definition applyDiameterFilter ::
  "(string \<Rightarrow> jsnum) \<Rightarrow> (jsnum \<Rightarrow> string) \<Rightarrow> string \<Rightarrow> effect list" where
  "applyDiameterFilter toNum toStr inputValue =
     (let v = toNum inputValue
      in if \<not> isFinite v \<or> lessZero v
         then [Alert ''Enter a non-negative diameter in mm (e.g., 150).'']
         else [SetWhere ''waterMains'' (''nominaldiameter >= '' @ toStr v)])"

text \<open>Letter case of ASCII, for \<open>toUpperCase\<close> and the \<open>i\<close> flag of a pattern.\<close>

definition upperChar :: "char \<Rightarrow> char" where
  "upperChar c =
     (case map_of (zip ''abcdefghijklmnopqrstuvwxyz'' ''ABCDEFGHIJKLMNOPQRSTUVWXYZ'') c of
        None \<Rightarrow> c
      | Some u \<Rightarrow> u)"

definition toUpperCase :: "string \<Rightarrow> string" where
  "toUpperCase s = map upperChar s"

text \<open>\<^verbatim>\<open>/^(name)$/i.test(ftype)\<close>\<close>

definition matchesIgnoringCase :: "string \<Rightarrow> string \<Rightarrow> bool" where
  "matchesIgnoringCase name ftype = (toUpperCase ftype = toUpperCase name)"

text \<open>\<^verbatim>\<open>String(value).replace(/'/g,"''")\<close>\<close>

definition escapeQuotes :: "string \<Rightarrow> string" where
  "escapeQuotes s = concat (map (\<lambda>c. if c = CHR 0x27 then [c, c] else [c]) s)"

text \<open>
  \<^verbatim>\<open>
  function buildWhere(field, op, value, ftype){
    if (!field || !op) return '1=1';
    if (value == null || value === '') return `${field} ${op} NULL`;
    const isString = /^(esriFieldTypeString)$/i.test(ftype);
    const isDate   = /^(esriFieldTypeDate)$/i.test(ftype);
    const isLike   = op.toUpperCase() === 'LIKE';
    if (isString){
      const v = String(value).replace(/'/g,"''");
      return `${field} ${op} '${isLike ? `%${v}%` : v}'`;
    }
    if (isDate){
      const t = Date.parse(value);
      if (Number.isFinite(t)) return `${field} ${op} ${t}`;
      return `${field} ${op} NULL`;
    }
    return `${field} ${op} ${value}`;
  }
  \<close>
  \<open>None\<close> is an absent argument (\<open>undefined\<close> or \<open>null\<close>); \<open>Date.parse\<close> and the printing
  of a number are parameters.
\<close>

definition buildWhere ::
  "(string \<Rightarrow> jsnum) \<Rightarrow> (jsnum \<Rightarrow> string) \<Rightarrow> string option \<Rightarrow> string option
     \<Rightarrow> string option \<Rightarrow> string \<Rightarrow> string" where
  "buildWhere dateParse toStr field op val ftype =
     (case (field, op) of
        (Some fld, Some opr) \<Rightarrow>
          if fld = [] \<or> opr = [] then ''1=1''
          else
            (case val of
               None \<Rightarrow> fld @ '' '' @ opr @ '' NULL''
             | Some v \<Rightarrow>
                 if v = [] then fld @ '' '' @ opr @ '' NULL''
                 else
                   let isString = matchesIgnoringCase ''esriFieldTypeString'' ftype;
                       isDate = matchesIgnoringCase ''esriFieldTypeDate'' ftype;
                       isLike = (toUpperCase opr = ''LIKE'')
                   in if isString
                      then fld @ '' '' @ opr @ '' '' @ [CHR 0x27]
                             @ (if isLike then ''%'' @ escapeQuotes v @ ''%''
                                else escapeQuotes v)
                             @ [CHR 0x27]
                      else if isDate
                      then (let t = dateParse v
                            in if isFinite t then fld @ '' '' @ opr @ '' '' @ toStr t
                               else fld @ '' '' @ opr @ '' NULL'')
                      else fld @ '' '' @ opr @ '' '' @ v)
      | _ \<Rightarrow> ''1=1'')"

definition layerRegistry :: "string list" where
  "layerRegistry = [''waterMains'', ''reclaimed'', ''hydrants'', ''pillarHydrants'',
                    ''wwGravity'', ''wwLowPressure'', ''wwPumping'', ''wwVacuum'']"

text \<open>
  The \<open>apply\<close> handler of the attribute filter form:
  \<^verbatim>\<open>
  function apply(){
    const key = fLayer.value;
    const lyr = layerRegistry[key];
    if (!lyr){ alert('Layer not found.'); return; }
    const opt = fField.selectedOptions[0];
    const fName = opt?.value;
    const fType = opt?.dataset?.type || '';
    const clause = buildWhere(fName, fOp.value, fVal.value, fType);
    lyr.setWhere(clause, () => { ... });
    fHint.textContent = `Applied: ${clause}`;
  }
  \<close>
\<close>

definition applyAttributeFilter ::
  "(string \<Rightarrow> jsnum) \<Rightarrow> (jsnum \<Rightarrow> string) \<Rightarrow> string \<Rightarrow> string option \<Rightarrow> string
     \<Rightarrow> string \<Rightarrow> string \<Rightarrow> effect list" where
  "applyAttributeFilter dateParse toStr key fName fType fOp fVal =
     (if key \<notin> set layerRegistry then [Alert ''Layer not found.'']
      else
        let clause = buildWhere dateParse toStr fName (Some fOp) (Some fVal) fType
        in [SetWhere key clause, Hint (''Applied: '' @ clause)])"

text \<open>Whether a handler has issued a query to the data source.\<close>

fun isQuery :: "effect \<Rightarrow> bool" where
  "isQuery (SetWhere key clause) = True"
| "isQuery _ = False"

text \<open>Concrete conversions: only the texts below are numbers or dates.\<close>

definition sampleToNum :: "string \<Rightarrow> jsnum" where
  "sampleToNum s =
     (if s = ''150'' then Num 150
      else if s = [] then Num 0
      else if s = ''Infinity'' then PosInf
      else NaN)"

definition sampleDateParse :: "string \<Rightarrow> jsnum" where
  "sampleDateParse s = (if s = ''2020-01-01'' then Num 1577836800000 else NaN)"

definition sampleToStr :: "jsnum \<Rightarrow> string" where
  "sampleToStr n =
     (if n = Num 150 then ''150''
      else if n = Num 1577836800000 then ''1577836800000''
      else ''?'')"

section \<open>Debounced recompute scheduler (app.js)\<close>

text \<open>
  The timers of the host and the variable \<open>analyticsTimer\<close>. Time is counted in
  milliseconds. A pending timeout is a handle with the time at which it is due; handles
  are positive and fresh. \<open>runs\<close> lists the times at which a timeout has started
  \<open>computeAnalytics\<close>.
\<close>

record host =
  now :: nat
  timers :: "(nat \<times> nat) list"
  nextHandle :: nat
  analyticsTimer :: "nat option"
  runs :: "nat list"

definition setTimeout :: "nat \<Rightarrow> host \<Rightarrow> nat \<times> host" where
  "setTimeout delay h =
     (nextHandle h,
      h\<lparr>timers := timers h @ [(nextHandle h, now h + delay)],
        nextHandle := Suc (nextHandle h)\<rparr>)"

definition clearTimeout :: "nat \<Rightarrow> host \<Rightarrow> host" where
  "clearTimeout handle h = h\<lparr>timers := filter (\<lambda>t. fst t \<noteq> handle) (timers h)\<rparr>"

text \<open>
  \<^verbatim>\<open>
  let analyticsTimer = null;
  function scheduleAnalytics() {
    if (analyticsTimer) clearTimeout(analyticsTimer);
    analyticsTimer = setTimeout(computeAnalytics, 350);
  }
  \<close>
\<close>

definition scheduleAnalytics :: "host \<Rightarrow> host" where
  "scheduleAnalytics h =
     (let h1 = (case analyticsTimer h of
                  None \<Rightarrow> h
                | Some t \<Rightarrow> if t \<noteq> 0 then clearTimeout t h else h)
      in case setTimeout 350 h1 of (t, h2) \<Rightarrow> h2\<lparr>analyticsTimer := Some t\<rparr>)"

text \<open>
  Time passes until \<open>t\<close>: the timeouts due by then fire in the order of their due times,
  each starting one run of \<open>computeAnalytics\<close>, which does not touch the timers.
\<close>

definition elapse :: "nat \<Rightarrow> host \<Rightarrow> host" where
  "elapse t h =
     h\<lparr>now := t,
       timers := filter (\<lambda>p. \<not> snd p \<le> t) (timers h),
       runs := runs h @ sort (map snd (filter (\<lambda>p. snd p \<le> t) (timers h)))\<rparr>"

text \<open>A trigger event at time \<open>t\<close> calls \<open>scheduleAnalytics\<close>; then the later ones follow.\<close>

fun triggers :: "nat list \<Rightarrow> host \<Rightarrow> host" where
  "triggers [] h = h"
| "triggers (t # ts) h = triggers ts (scheduleAnalytics (elapse t h))"

text \<open>
  A burst: trigger times in order, each consecutive pair separated by strictly less than
  the quiet interval.
\<close>

fun burst :: "nat list \<Rightarrow> bool" where
  "burst [] = True"
| "burst [t] = True"
| "burst (t # u # ts) = (t \<le> u \<and> u < t + 350 \<and> burst (u # ts))"

text \<open>A host on which nothing is pending.\<close>

definition idle :: "host \<Rightarrow> bool" where
  "idle h = (timers h = [] \<and> 0 < nextHandle h)"

definition startHost :: host where
  "startHost = \<lparr>now = 0, timers = [], nextHandle = 1, analyticsTimer = None, runs = []\<rparr>"

text \<open>
  One timeout is pending, set by the trigger at time \<open>t\<close>, and \<open>analyticsTimer\<close> holds its
  handle.
\<close>

definition pendingAt :: "nat \<Rightarrow> host \<Rightarrow> bool" where
  "pendingAt t h =
     (case analyticsTimer h of
        None \<Rightarrow> False
      | Some k \<Rightarrow> k \<noteq> 0 \<and> timers h = [(k, t + 350)] \<and> 0 < nextHandle h)"

section \<open>Properties of the readiness scorer\<close>

lemma toIdx_spec_idx: "toIdx d = spec_idx d"
  by (cases d) (simp_all add: spec_idx_def)

lemma toIdx_range: "nonneg_dist d \<Longrightarrow> 0 \<le> toIdx d \<and> toIdx d \<le> 1"
  by (cases d) (simp_all add: min_def)

lemma density_range: "0 \<le> lenKm \<Longrightarrow> 0 \<le> min (lenKm / 1.5) 1 \<and> min (lenKm / 1.5) (1::real) \<le> 1"
  by (simp add: min_def)

lemma weighted_sum_range:
  fixes w s d :: real
  assumes "0 \<le> w" "w \<le> 1" "0 \<le> s" "s \<le> 1" "0 \<le> d" "d \<le> 1"
  shows "0 \<le> 0.4 * w + 0.4 * s + 0.2 * d" "0.4 * w + 0.4 * s + 0.2 * d \<le> 1"
    "0 \<le> 0.6 * w + 0.4 * d" "0.6 * w + 0.4 * d \<le> 1"
  using assms by simp_all

text \<open>
  C1. For every pair of distances and every pipe length, the scorer of the source equals
  the reference algorithm of the specification (proximity index, density index, weight
  triple by vanishing indices, weighted sum); in particular the score of two unbounded
  distances and no pipe is 0, and the score of two zero distances and at least 1.5 km of
  pipe is 1.
\<close>

theorem readinessScore_refines_spec:
  "readinessScore wd sd lenKm = spec_score wd sd lenKm
   \<and> readinessScore Infinity Infinity 0 = 0
   \<and> (1.5 \<le> l \<longrightarrow> readinessScore (Km 0) (Km 0) l = 1)"
proof (intro conjI impI)
  show "readinessScore wd sd lenKm = spec_score wd sd lenKm"
    by (simp add: readinessScore_def spec_score_def weights_def spec_weights_def
        spec_density_def toIdx_spec_idx Let_def)
  show "readinessScore Infinity Infinity 0 = 0"
    by (simp add: readinessScore_def weights_def Let_def)
  show "readinessScore (Km 0) (Km 0) l = 1" if "1.5 \<le> l"
    using that by (simp add: readinessScore_def weights_def Let_def min_def)
qed

theorem readinessScore_refines_spec_witness:
  "readinessScore (Km 0.3) Infinity 0 = spec_score (Km 0.3) Infinity 0
   \<and> readinessScore (Km 0.3) Infinity 0 = 0.3
   \<and> readinessScore Infinity Infinity 0 = 0
   \<and> (1.5::real) \<le> 2 \<and> readinessScore (Km 0) (Km 0) 2 = 1"
proof -
  have "readinessScore (Km 0.3) Infinity 0 = 0.3"
    by (simp add: readinessScore_def weights_def Let_def)
  then show ?thesis
    using readinessScore_refines_spec [of "Km 0.3" Infinity 0 2] by simp
qed

text \<open>
  C2. For distances that are unbounded or non-negative, and a non-negative pipe length,
  the readiness score lies in the closed interval from 0 to 1.
\<close>

theorem readinessScore_in_unit_interval:
  assumes "nonneg_dist wd" and "nonneg_dist sd" and "0 \<le> lenKm"
  shows "0 \<le> readinessScore wd sd lenKm \<and> readinessScore wd sd lenKm \<le> 1"
proof -
  define w where "w = toIdx wd"
  define s where "s = toIdx sd"
  define d where "d = min (lenKm / 1.5) (1::real)"
  have w: "0 \<le> w" "w \<le> 1" using toIdx_range [OF assms(1)] by (simp_all add: w_def)
  have s: "0 \<le> s" "s \<le> 1" using toIdx_range [OF assms(2)] by (simp_all add: s_def)
  have d: "0 \<le> d" "d \<le> 1" using density_range [OF assms(3)] by (simp_all add: d_def)
  have eq: "readinessScore wd sd lenKm
      = (if w = 0 \<and> s = 0 then d
         else if w = 0 then 0.6 * s + 0.4 * d
         else if s = 0 then 0.6 * w + 0.4 * d
         else 0.4 * w + 0.4 * s + 0.2 * d)"
    by (simp add: readinessScore_def weights_def Let_def w_def s_def d_def)
  show ?thesis
    unfolding eq
    using weighted_sum_range [OF w s d] weighted_sum_range(3,4) [OF s w d] d
    by (simp split: if_splits)
qed

theorem readinessScore_in_unit_interval_witness:
  "nonneg_dist (Km 0.2) \<and> nonneg_dist Infinity \<and> (0::real) \<le> 0.8
   \<and> 0 \<le> readinessScore (Km 0.2) Infinity 0.8 \<and> readinessScore (Km 0.2) Infinity 0.8 \<le> 1"
proof -
  have h: "nonneg_dist (Km 0.2)" "nonneg_dist Infinity" "(0::real) \<le> 0.8" by simp_all
  show ?thesis
    using h readinessScore_in_unit_interval [OF h] by simp
qed

section \<open>Properties of the viewport aggregator\<close>

lemma addLen_clipped:
  "addLen bboxClip len parse bbox props c (t, m) =
     (case clippedKm bboxClip len bbox c of
        None \<Rightarrow> (case bboxClip c bbox of Inl e \<Rightarrow> Inl e
                  | Inr k \<Rightarrow> (case len k of Inl e \<Rightarrow> Inl e | Inr km \<Rightarrow> Inl (Error [])))
      | Some km \<Rightarrow>
          Inr (t + km,
               map_option (\<lambda>bm. case toNumber parse (case props of None \<Rightarrow> None
                                                       | Some ps \<Rightarrow> ps ''nominaldiameter'') of
                                   Num d \<Rightarrow> bm(d \<mapsto> getOrZero bm d + km)
                                 | _ \<Rightarrow> bm) m))"
  by (simp add: addLen_def clippedKm_def split: sum.splits option.splits jsnum.splits)

lemma addLens_counted:
  "snd (addLens (addLen bboxClip len parse bbox props) cs (t, m)) =
     (t + sum_list (map (\<lambda>c. the (clippedKm bboxClip len bbox c))
                      (takeWhile (\<lambda>c. clippedKm bboxClip len bbox c \<noteq> None) cs)),
      map_option
        (binUpd (case toNumber parse (case props of None \<Rightarrow> None
                                      | Some ps \<Rightarrow> ps ''nominaldiameter'') of
                   Num d \<Rightarrow> Some d | _ \<Rightarrow> None)
           (map (\<lambda>c. the (clippedKm bboxClip len bbox c))
              (takeWhile (\<lambda>c. clippedKm bboxClip len bbox c \<noteq> None) cs))) m)"
proof (induction cs arbitrary: t m)
  case Nil
  show ?case by (cases m) (simp_all add: binUpd_def fun_eq_iff)
next
  case (Cons c cs)
  show ?case
  proof (cases "clippedKm bboxClip len bbox c")
    case None
    then show ?thesis
      by (cases m) (auto simp: addLen_clipped binUpd_def fun_eq_iff split: sum.splits)
  next
    case (Some km)
    then show ?thesis
      by (cases m)
         (auto simp: addLen_clipped Cons.IH binUpd_def fun_eq_iff getOrZero_def
            split: jsnum.splits)
  qed
qed

lemma tryBody_counted:
  "snd (tryBody bboxClip len parse bbox f (t, m)) =
     (t + sum_list (countedKm bboxClip len bbox f),
      map_option (binUpd (binOf parse f) (countedKm bboxClip len bbox f)) m)"
proof (cases f)
  case None
  then show ?thesis
    by (cases m) (simp_all add: tryBody_def countedKm_def componentLines_def binUpd_def fun_eq_iff)
next
  case (Some ft)
  show ?thesis
  proof (cases "geometry ft")
    case None
    with Some show ?thesis
      by (cases m)
         (simp_all add: tryBody_def countedKm_def componentLines_def binUpd_def fun_eq_iff)
  next
    case (Some g)
    with \<open>f = Some ft\<close> show ?thesis
      by (cases g; cases m)
         (simp_all add: tryBody_def countedKm_def componentLines_def binOf_def addLens_counted
            binUpd_def fun_eq_iff del: addLens.simps)
  qed
qed

lemma binKm_Cons:
  "binKm bboxClip len parse bbox d (f # fs) =
     (if binOf parse f = Some d then countedKm bboxClip len bbox f else [])
       @ binKm bboxClip len parse bbox d fs"
  by (simp add: binKm_def)

lemma binUpd_binsAfter:
  "binsAfter bboxClip len parse bbox fs
      (binUpd (binOf parse f) (countedKm bboxClip len bbox f) m)
   = binsAfter bboxClip len parse bbox (f # fs) m"
  by (simp add: binsAfter_def binUpd_def binKm_Cons fun_eq_iff getOrZero_def)

lemma fold_tryBody:
  "fold (\<lambda>f agg. snd (tryBody bboxClip len parse bbox f agg)) feats (t, m) =
     (t + sum_list (concat (map (countedKm bboxClip len bbox) feats)),
      map_option (binsAfter bboxClip len parse bbox feats) m)"
proof (induction feats arbitrary: t m)
  case Nil
  show ?case by (cases m) (simp_all add: binsAfter_def binKm_def fun_eq_iff)
next
  case (Cons f fs)
  show ?case
    by (cases m) (simp_all add: tryBody_counted Cons.IH binUpd_binsAfter add.assoc)
qed

text \<open>
  C10. The viewport length aggregation is total and never raises. For a null collection
  it returns 0 and leaves the diameter map alone. Otherwise every element of the
  collection is processed: a null element, one without geometry and one of an unsupported
  geometry type contribute nothing; a line-string contributes its clipped length unless
  clipping or measuring throws; a multi-line-string contributes the clipped lengths of its
  component lines that precede the first throwing one. The returned total is the sum of
  these contributions, and each diameter bin has received exactly the contributions of
  the elements whose diameter is that finite number.
\<close>

theorem lengthInViewKm_tolerant:
  "lengthInViewKm bboxClip len parse None bbox m = (0, m)
   \<and> lengthInViewKm bboxClip len parse (Some fc) bbox m =
       (sum_list (concat (map (countedKm bboxClip len bbox) (featuresOf (Some fc)))),
        map_option (binsAfter bboxClip len parse bbox (featuresOf (Some fc))) m)"
  by (simp add: lengthInViewKm_def featuresOf_def fold_tryBody Let_def split: option.splits)

theorem lengthInViewKm_tolerant_witness:
  "fst (lengthInViewKm sampleClip sampleLen sampleParse
          (Some \<lparr>features = Some sampleFeats\<rparr>) 4 (Some Map.empty)) = 8
   \<and> the (snd (lengthInViewKm sampleClip sampleLen sampleParse
          (Some \<lparr>features = Some sampleFeats\<rparr>) 4 (Some Map.empty))) 100 = Some 1
   \<and> the (snd (lengthInViewKm sampleClip sampleLen sampleParse
          (Some \<lparr>features = Some sampleFeats\<rparr>) 4 (Some Map.empty))) 150 = Some 3
   \<and> the (snd (lengthInViewKm sampleClip sampleLen sampleParse
          (Some \<lparr>features = Some sampleFeats\<rparr>) 4 (Some Map.empty))) 7 = None"
  using lengthInViewKm_tolerant [of sampleClip sampleLen sampleParse 4 "Some Map.empty"
      "\<lparr>features = Some sampleFeats\<rparr>"]
  by (simp add: featuresOf_def sampleFeats_def countedKm_def componentLines_def clippedKm_def
      sampleClip_def sampleLen_def sampleParse_def sampleProps_def binsAfter_def binKm_def
      binOf_def getOrZero_def)

section \<open>Properties of the candidate filter and the local measurements\<close>

lemma fold_push_filter:
  "fold (\<lambda>f near. if P f then near @ [f] else near) fs acc = acc @ filter P fs"
  by (induction fs arbitrary: acc) simp_all

lemma fold_add_sum:
  "fold (\<lambda>f tot. if P f then tot + g f else tot) fs (t::real) = t + sum_list (map g (filter P fs))"
  by (induction fs arbitrary: t) simp_all

lemma linesNearPolygon_filter:
  "featuresOf (Some (linesNearPolygon T poly lineFC radiusKm)) =
     filter (\<lambda>f. isLineString f
               \<and> turf_booleanIntersects T
                   (turf_buffer T (turf_bboxPolygon T (turf_bbox T poly)) radiusKm) f)
       (featuresOf lineFC)"
  by (simp add: linesNearPolygon_def featuresOf_def emptyFC_def fold_push_filter Let_def)

lemma add_lines_sum:
  "add_lines T buf fc t =
     t + sum_list (map (turf_length T)
           (filter (\<lambda>f. isLineString f \<and> turf_booleanIntersects T buf f) (featuresOf fc)))"
  by (simp add: add_lines_def fold_add_sum)

lemma road_buffer_parts: "parts (road_buffer g r) = [(fst (road_bbox g) - r, fst (snd (snd (road_bbox g))) + r)]"
  by (cases "road_bbox g") (simp add: road_buffer_def parts_def)

lemma overlaps_wider:
  "r1 \<le> r2 \<Longrightarrow> overlaps (w - r1, e + r1) q \<Longrightarrow> overlaps (w - r2, e + r2) q"
  by (simp add: overlaps_def)

lemma buffer_monotone_road: "buffer_monotone road"
  unfolding buffer_monotone_def
  by (auto simp: road_def road_booleanIntersects_def road_buffer_parts list_ex_iff
      intro: overlaps_wider)

text \<open>
  C3. In the end-to-end example (one 1 km line at 0.2 km from the centroid, no wastewater
  network, 0.8 km of the line inside the 250 m buffer) the local pipe-length measurement
  is the full length of each line-string that intersects the buffer: 1 km for the example,
  and the readiness is 0.6 (1 - 0.2/0.6) + 0.4 (1/1.5), which is 2/3.
\<close>

theorem sumLengthWithinBufferKm_local_full_lengths:
  "sumLengthWithinBufferKm_local T poly waterFC sewerFC bufferKm =
     sum_list (map (turf_length T)
       (filter (\<lambda>f. isLineString f \<and> turf_booleanIntersects T (turf_buffer T poly bufferKm) f)
          (featuresOf waterFC @ featuresOf sewerFC)))
   \<and> analyseArea road exampleArea exampleWater exampleWastewater =
       \<lparr>waterDist = Km 0.2, sewerDist = Infinity, pipeLen = 1,
        readiness = 0.6 * (1 - 0.2 / 0.6) + 0.4 * (1 / 1.5)\<rparr>"
proof
  show "sumLengthWithinBufferKm_local T poly waterFC sewerFC bufferKm =
     sum_list (map (turf_length T)
       (filter (\<lambda>f. isLineString f \<and> turf_booleanIntersects T (turf_buffer T poly bufferKm) f)
          (featuresOf waterFC @ featuresOf sewerFC)))"
    by (simp add: sumLengthWithinBufferKm_local_def add_lines_sum Let_def)
  show "analyseArea road exampleArea exampleWater exampleWastewater =
       \<lparr>waterDist = Km 0.2, sewerDist = Infinity, pipeLen = 1,
        readiness = 0.6 * (1 - 0.2 / 0.6) + 0.4 * (1 / 1.5)\<rparr>"
    by (simp add: analyseArea_def linesNearPolygon_def featuresOf_def exampleWater_def
        exampleWastewater_def exampleArea_def exampleLine_def road_def road_bbox_def
        road_bboxPolygon_def road_buffer_def road_booleanIntersects_def overlaps_def parts_def
        road_centroid_def road_pointToLineDistance_def road_length_def lineFeature_def
        polygonFeature_def isLineString_def emptyFC_def nearestLineDistanceKm_local_def
        sumLengthWithinBufferKm_local_def add_lines_def readinessScore_def weights_def Let_def)
qed

text \<open>
  The example as the specification states it fails on the code: 0.8 km of the line lies inside the
  buffer, but the measurement is not 0.8 km and the readiness is not
  0.6 (1 - 0.2/0.6) + 0.4 (0.8/1.5); it exceeds 0.66.
\<close>

theorem example_pipe_length_counterexample:
  "road_length exampleLine = 1
   \<and> road_pointToLineDistance (road_centroid exampleArea) exampleLine = 0.2
   \<and> road_lengthWithin (road_buffer exampleArea 0.25) exampleLine = 0.8
   \<and> sumLengthWithinBufferKm_local road exampleArea
        (Some (linesNearPolygon road exampleArea exampleWater 2))
        (Some (linesNearPolygon road exampleArea exampleWastewater 2)) 0.25 \<noteq> 0.8
   \<and> readiness (analyseArea road exampleArea exampleWater exampleWastewater)
        \<noteq> 0.6 * (1 - 0.2 / 0.6) + 0.4 * (0.8 / 1.5)
   \<and> 0.66 < readiness (analyseArea road exampleArea exampleWater exampleWastewater)"
  by (simp add: analyseArea_def linesNearPolygon_def featuresOf_def exampleWater_def
      exampleWastewater_def exampleArea_def exampleLine_def road_def road_bbox_def
      road_bboxPolygon_def road_buffer_def road_booleanIntersects_def overlaps_def parts_def
      road_centroid_def road_pointToLineDistance_def road_length_def road_lengthWithin_def
      lineFeature_def polygonFeature_def isLineString_def emptyFC_def
      nearestLineDistanceKm_local_def sumLengthWithinBufferKm_local_def add_lines_def
      readinessScore_def weights_def Let_def)

text \<open>
  C4. For every region, collection and radius, the candidate filter contains every
  line-string feature of the collection whose geometry intersects the buffered bounding
  box of the region: it never under-includes an intersecting line-string feature. A
  multi-line-string feature is never returned.
\<close>

theorem linesNearPolygon_keeps_line_strings:
  "(f \<in> set (featuresOf collection) \<and> isLineString f
      \<and> turf_booleanIntersects T
           (turf_buffer T (turf_bboxPolygon T (turf_bbox T region)) radiusKm) f
    \<longrightarrow> f \<in> set (featuresOf (Some (linesNearPolygon T region collection radiusKm))))
   \<and> (isMultiLineString g
    \<longrightarrow> g \<notin> set (featuresOf (Some (linesNearPolygon T region collection radiusKm))))"
proof (intro conjI impI)
  assume "f \<in> set (featuresOf collection) \<and> isLineString f
      \<and> turf_booleanIntersects T
           (turf_buffer T (turf_bboxPolygon T (turf_bbox T region)) radiusKm) f"
  then show "f \<in> set (featuresOf (Some (linesNearPolygon T region collection radiusKm)))"
    by (simp add: linesNearPolygon_filter)
next
  assume "isMultiLineString g"
  then have "\<not> isLineString g"
    by (auto simp: isMultiLineString_def isLineString_def split: option.splits geometry.splits)
  then show "g \<notin> set (featuresOf (Some (linesNearPolygon T region collection radiusKm)))"
    by (simp add: linesNearPolygon_filter)
qed

theorem linesNearPolygon_keeps_line_strings_witness:
  "lineFeature 3 4 \<in> set (featuresOf sampleNetwork)
   \<and> isLineString (lineFeature 3 4)
   \<and> turf_booleanIntersects road
        (turf_buffer road (turf_bboxPolygon road (turf_bbox road exampleArea)) 2)
        (lineFeature 3 4)
   \<and> lineFeature 3 4 \<in> set (featuresOf (Some (linesNearPolygon road exampleArea sampleNetwork 2)))
   \<and> isMultiLineString (multiLineFeature [(3, 4)])
   \<and> multiLineFeature [(3, 4)]
        \<notin> set (featuresOf (Some (linesNearPolygon road exampleArea sampleNetwork 2)))"
proof -
  have h: "lineFeature 3 4 \<in> set (featuresOf sampleNetwork)"
    "isLineString (lineFeature 3 4)"
    "turf_booleanIntersects road
        (turf_buffer road (turf_bboxPolygon road (turf_bbox road exampleArea)) 2)
        (lineFeature 3 4)"
    "isMultiLineString (multiLineFeature [(3, 4)])"
    by (simp_all add: sampleNetwork_def featuresOf_def isLineString_def isMultiLineString_def
        lineFeature_def multiLineFeature_def road_def road_bbox_def road_bboxPolygon_def
        road_buffer_def road_booleanIntersects_def overlaps_def parts_def exampleArea_def
        polygonFeature_def)
  show ?thesis
    using h linesNearPolygon_keeps_line_strings
      [of "lineFeature 3 4" sampleNetwork road exampleArea 2 "multiLineFeature [(3, 4)]"]
    by simp
qed

text \<open>
  A multi-line-string feature of the collection that intersects the buffered bounding box
  is not returned.
\<close>

theorem linesNearPolygon_drops_multi_line_counterexample:
  "sampleMultiLine \<in> set (featuresOf sampleNetwork)
   \<and> isMultiLineString sampleMultiLine
   \<and> turf_booleanIntersects road
        (turf_buffer road (turf_bboxPolygon road (turf_bbox road exampleArea)) 2)
        sampleMultiLine
   \<and> sampleMultiLine
        \<notin> set (featuresOf (Some (linesNearPolygon road exampleArea sampleNetwork 2)))"
  by (simp add: sampleNetwork_def sampleMultiLine_def featuresOf_def isLineString_def
      isMultiLineString_def lineFeature_def multiLineFeature_def linesNearPolygon_def
      road_def road_bbox_def road_bboxPolygon_def road_buffer_def road_booleanIntersects_def
      overlaps_def parts_def exampleArea_def polygonFeature_def emptyFC_def Let_def)

text \<open>
  C5. Under the buffer contract (a larger radius produces a footprint containing the
  smaller radius's footprint), for radii r1 \<le> r2 every feature the candidate filter
  returns for r1 is also returned for r2.
\<close>

theorem linesNearPolygon_monotone_in_radius:
  assumes "buffer_monotone T" and "r1 \<le> r2"
  shows "set (featuresOf (Some (linesNearPolygon T region collection r1)))
           \<subseteq> set (featuresOf (Some (linesNearPolygon T region collection r2)))"
  using assms unfolding buffer_monotone_def
  by (auto simp: linesNearPolygon_filter)

theorem linesNearPolygon_monotone_in_radius_witness:
  "buffer_monotone road \<and> (1::real) \<le> 2
   \<and> featuresOf (Some (linesNearPolygon road exampleArea sampleNetwork 1)) = [lineFeature 0.95 1.95]
   \<and> featuresOf (Some (linesNearPolygon road exampleArea sampleNetwork 2))
       = [lineFeature 0.95 1.95, lineFeature 3 4]
   \<and> set (featuresOf (Some (linesNearPolygon road exampleArea sampleNetwork 1)))
       \<subseteq> set (featuresOf (Some (linesNearPolygon road exampleArea sampleNetwork 2)))"
proof -
  have h: "(1::real) \<le> 2" by simp
  have e1: "featuresOf (Some (linesNearPolygon road exampleArea sampleNetwork 1))
      = [lineFeature 0.95 1.95]"
    by (simp add: sampleNetwork_def sampleMultiLine_def featuresOf_def isLineString_def
        lineFeature_def multiLineFeature_def linesNearPolygon_def road_def road_bbox_def
        road_bboxPolygon_def road_buffer_def road_booleanIntersects_def overlaps_def parts_def
        exampleArea_def polygonFeature_def emptyFC_def Let_def)
  have e2: "featuresOf (Some (linesNearPolygon road exampleArea sampleNetwork 2))
      = [lineFeature 0.95 1.95, lineFeature 3 4]"
    by (simp add: sampleNetwork_def sampleMultiLine_def featuresOf_def isLineString_def
        lineFeature_def multiLineFeature_def linesNearPolygon_def road_def road_bbox_def
        road_bboxPolygon_def road_buffer_def road_booleanIntersects_def overlaps_def parts_def
        exampleArea_def polygonFeature_def emptyFC_def Let_def)
  show ?thesis
    using linesNearPolygon_monotone_in_radius [OF buffer_monotone_road h,
        of exampleArea sampleNetwork]
    by (simp only: buffer_monotone_road h e1 e2 simp_thms)
qed

section \<open>Properties of the paged retrieval coordinator\<close>

lemma queryLoop_step_full:
  assumes "fullPage run rg wh m"
  shows "queryLoop run rg wh (m * pageSize) all reqs =
     queryLoop run rg wh (Suc m * pageSize) (all @ pageAt run rg wh m)
       (reqs @ [pageQuery rg wh (m * pageSize)])"
  using assms
  by (subst queryLoop.simps) (auto simp: fullPage_def pageAt_def add.commute split: sum.splits)

lemma queryLoop_step_short:
  assumes "shortPage run rg wh n"
  shows "queryLoop run rg wh (n * pageSize) all reqs =
     Some (reqs @ [pageQuery rg wh (n * pageSize)],
           Inr \<lparr>features = Some (all @ pageAt run rg wh n)\<rparr>)"
  using assms
  by (subst queryLoop.simps) (auto simp: shortPage_def pageAt_def split: sum.splits)

lemma queryLoop_step_fail:
  assumes "run (pageQuery rg wh (n * pageSize)) = Inl err"
  shows "queryLoop run rg wh (n * pageSize) all reqs =
     Some (reqs @ [pageQuery rg wh (n * pageSize)], Inl err)"
  using assms by (subst queryLoop.simps) simp

lemma queryLoop_full_pages:
  assumes "k \<le> n" and "\<forall>i. k \<le> i \<and> i < n \<longrightarrow> fullPage run rg wh i"
  shows "queryLoop run rg wh (k * pageSize) all reqs =
     queryLoop run rg wh (n * pageSize)
       (all @ concat (map (pageAt run rg wh) [k..<n]))
       (reqs @ map (\<lambda>i. pageQuery rg wh (i * pageSize)) [k..<n])"
  using assms
proof (induction n rule: dec_induct)
  case base
  show ?case by simp
next
  case (step m)
  have "queryLoop run rg wh (k * pageSize) all reqs =
     queryLoop run rg wh (m * pageSize)
       (all @ concat (map (pageAt run rg wh) [k..<m]))
       (reqs @ map (\<lambda>i. pageQuery rg wh (i * pageSize)) [k..<m])"
    using step by simp
  also have "\<dots> = queryLoop run rg wh (Suc m * pageSize)
       ((all @ concat (map (pageAt run rg wh) [k..<m])) @ pageAt run rg wh m)
       ((reqs @ map (\<lambda>i. pageQuery rg wh (i * pageSize)) [k..<m])
          @ [pageQuery rg wh (m * pageSize)])"
    using step by (intro queryLoop_step_full) simp
  finally show ?case
    using \<open>k \<le> m\<close> by simp
qed

text \<open>
  C6. When every page before the last returns exactly pageSize features and the last page
  returns strictly fewer, the retrieval terminates; it has requested the pages at offsets
  0, pageSize, 2 pageSize, ... in this order, and it returns the concatenation of all
  pages in request order. When the first page is empty it returns a single empty
  collection after one request.
\<close>

theorem queryAllFeatures_concatenates_pages:
  "((\<forall>i<n. fullPage run rg wh i) \<and> shortPage run rg wh n \<longrightarrow>
      queryAllFeatures run rg wh =
        Some (map (\<lambda>i. pageQuery rg wh (i * pageSize)) [0..<Suc n],
              Inr \<lparr>features = Some (concat (map (pageAt run rg wh) [0..<Suc n]))\<rparr>))
   \<and> (run (pageQuery rg wh 0) = Inr fc \<and> batchOf fc = [] \<longrightarrow>
      queryAllFeatures run rg wh = Some ([pageQuery rg wh 0], Inr \<lparr>features = Some []\<rparr>))"
proof (intro conjI impI)
  assume a: "(\<forall>i<n. fullPage run rg wh i) \<and> shortPage run rg wh n"
  have "queryLoop run rg wh (0 * pageSize) [] [] =
     queryLoop run rg wh (n * pageSize)
       ([] @ concat (map (pageAt run rg wh) [0..<n]))
       ([] @ map (\<lambda>i. pageQuery rg wh (i * pageSize)) [0..<n])"
    using a by (intro queryLoop_full_pages) simp_all
  also have "\<dots> = Some (([] @ map (\<lambda>i. pageQuery rg wh (i * pageSize)) [0..<n])
                          @ [pageQuery rg wh (n * pageSize)],
       Inr \<lparr>features = Some (([] @ concat (map (pageAt run rg wh) [0..<n]))
                               @ pageAt run rg wh n)\<rparr>)"
    using a by (intro queryLoop_step_short) simp
  finally show "queryAllFeatures run rg wh =
        Some (map (\<lambda>i. pageQuery rg wh (i * pageSize)) [0..<Suc n],
              Inr \<lparr>features = Some (concat (map (pageAt run rg wh) [0..<Suc n]))\<rparr>)"
    by (simp add: queryAllFeatures_def)
next
  assume b: "run (pageQuery rg wh 0) = Inr fc \<and> batchOf fc = []"
  then have "shortPage run rg wh 0"
    by (simp add: shortPage_def pageSize_def)
  from queryLoop_step_short [OF this, of "[]" "[]"] b
  show "queryAllFeatures run rg wh = Some ([pageQuery rg wh 0], Inr \<lparr>features = Some []\<rparr>)"
    by (simp add: queryAllFeatures_def pageAt_def)
qed

theorem queryAllFeatures_concatenates_pages_witness:
  "fullPage sampleSource True None 0 \<and> fullPage sampleSource True None 1
   \<and> shortPage sampleSource True None 2
   \<and> queryAllFeatures sampleSource True None =
       Some ([pageQuery True None 0, pageQuery True None 2000, pageQuery True None 4000],
             Inr \<lparr>features = Some (replicate 2000 1 @ replicate 2000 2 @ [3])\<rparr>)
   \<and> emptySource (pageQuery True None 0) = Inr (Some \<lparr>features = Some []\<rparr>)
   \<and> batchOf (Some \<lparr>features = Some ([] :: nat list)\<rparr>) = []
   \<and> queryAllFeatures emptySource True None
       = Some ([pageQuery True None 0], Inr \<lparr>features = Some []\<rparr>)"
proof -
  have full: "\<forall>i<2. fullPage sampleSource True None i"
    by (auto simp: less_2_cases_iff fullPage_def sampleSource_def pageQuery_def batchOf_def
        pageSize_def)
  have short: "shortPage sampleSource True None 2"
    by (simp add: shortPage_def sampleSource_def pageQuery_def batchOf_def pageSize_def)
  have e: "emptySource (pageQuery True None 0) = Inr (Some \<lparr>features = Some []\<rparr>)"
    "batchOf (Some \<lparr>features = Some ([] :: nat list)\<rparr>) = []"
    by (simp_all add: emptySource_def batchOf_def)
  have upt3: "[0..<Suc 2] = [0, 1, 2]" "[0..<3] = [0, 1, 2]"
    by (simp_all add: upt_rec)
  have pages: "pageAt sampleSource True None 0 = replicate 2000 1"
    "pageAt sampleSource True None (Suc 0) = replicate 2000 2"
    "pageAt sampleSource True None 2 = [3]"
    by (simp_all add: pageAt_def sampleSource_def pageQuery_def batchOf_def pageSize_def)
  have offs: "pageSize = 2000"
    by (simp add: pageSize_def)
  from queryAllFeatures_concatenates_pages [of 2 sampleSource True None]
    queryAllFeatures_concatenates_pages
      [of 0 emptySource True None "Some \<lparr>features = Some []\<rparr>"]
  show ?thesis
    using full short e by (simp add: upt3 pages offs less_2_cases_iff)
qed

text \<open>
  C7. When the request for some page fails (the pages before it being full, so that the
  request is made), the retrieval fails as a whole with that error: the features of the
  earlier pages are not returned.
\<close>

theorem queryAllFeatures_fails_as_a_whole:
  assumes "\<forall>i<k. fullPage run rg wh i"
    and "run (pageQuery rg wh (k * pageSize)) = Inl err"
  shows "queryAllFeatures run rg wh =
     Some (map (\<lambda>i. pageQuery rg wh (i * pageSize)) [0..<Suc k], Inl err)"
proof -
  have "queryLoop run rg wh (0 * pageSize) [] [] =
     queryLoop run rg wh (k * pageSize)
       ([] @ concat (map (pageAt run rg wh) [0..<k]))
       ([] @ map (\<lambda>i. pageQuery rg wh (i * pageSize)) [0..<k])"
    using assms(1) by (intro queryLoop_full_pages) simp_all
  also have "\<dots> = Some (([] @ map (\<lambda>i. pageQuery rg wh (i * pageSize)) [0..<k])
                          @ [pageQuery rg wh (k * pageSize)], Inl err)"
    using assms(2) by (rule queryLoop_step_fail)
  finally show ?thesis
    by (simp add: queryAllFeatures_def)
qed

theorem queryAllFeatures_fails_as_a_whole_witness:
  "fullPage failingSource True None 0 \<and> fullPage failingSource True None 1
   \<and> failingSource (pageQuery True None (2 * pageSize)) = Inl ''503''
   \<and> queryAllFeatures failingSource True None =
       Some ([pageQuery True None 0, pageQuery True None 2000, pageQuery True None 4000],
             Inl ''503'')"
proof -
  have full: "\<forall>i<2. fullPage failingSource True None i"
    by (auto simp: less_2_cases_iff fullPage_def failingSource_def pageQuery_def batchOf_def
        pageSize_def)
  have fail: "failingSource (pageQuery True None (2 * pageSize)) = Inl ''503''"
    by (simp add: failingSource_def pageQuery_def pageSize_def)
  have upt3: "[0..<Suc 2] = [0, 1, 2]" "[0..<3] = [0, 1, 2]"
    by (simp_all add: upt_rec)
  have offs: "pageSize = 2000"
    by (simp add: pageSize_def)
  from queryAllFeatures_fails_as_a_whole [OF full fail]
  show ?thesis
    using full fail by (simp add: upt3 offs less_2_cases_iff)
qed

section \<open>Properties of the filter input handlers\<close>

lemma date_is_not_string:
  "matchesIgnoringCase ''esriFieldTypeDate'' ftype
     \<Longrightarrow> \<not> matchesIgnoringCase ''esriFieldTypeString'' ftype"
  by (auto simp: matchesIgnoringCase_def toUpperCase_def)

lemma buildWhere_unparseable_date:
  assumes "fld \<noteq> []" and "opr \<noteq> []" and "v \<noteq> []"
    and "matchesIgnoringCase ''esriFieldTypeDate'' ftype"
    and "\<not> isFinite (dateParse v)"
  shows "buildWhere dateParse toStr (Some fld) (Some opr) (Some v) ftype
           = fld @ '' '' @ opr @ '' NULL''"
  using assms date_is_not_string [OF assms(4)]
  by (simp add: buildWhere_def Let_def)

text \<open>
  C8. A non-finite diameter threshold is rejected before any query is issued: the handler
  alerts the user and makes no request. An unparseable date value in the attribute filter
  is not rejected: its place in the predicate is taken by NULL, and the handler applies
  the predicate "field op NULL" to the layer and reports it in the hint line.
\<close>

theorem malformed_filter_input:
  "(\<not> isFinite (toNum inputValue) \<longrightarrow>
      applyDiameterFilter toNum toStr inputValue
        = [Alert ''Enter a non-negative diameter in mm (e.g., 150).'']
      \<and> \<not> list_ex isQuery (applyDiameterFilter toNum toStr inputValue))
   \<and> (key \<in> set layerRegistry \<and> fld \<noteq> [] \<and> fOp \<noteq> [] \<and> fVal \<noteq> []
        \<and> matchesIgnoringCase ''esriFieldTypeDate'' fType \<and> \<not> isFinite (dateParse fVal) \<longrightarrow>
      buildWhere dateParse toStr (Some fld) (Some fOp) (Some fVal) fType
        = fld @ '' '' @ fOp @ '' NULL''
      \<and> applyAttributeFilter dateParse toStr key (Some fld) fType fOp fVal
        = [SetWhere key (fld @ '' '' @ fOp @ '' NULL''),
           Hint (''Applied: '' @ fld @ '' '' @ fOp @ '' NULL'')])"
proof (intro conjI impI)
  assume "\<not> isFinite (toNum inputValue)"
  then show "applyDiameterFilter toNum toStr inputValue
        = [Alert ''Enter a non-negative diameter in mm (e.g., 150).'']"
    by (simp add: applyDiameterFilter_def Let_def)
  then show "\<not> list_ex isQuery (applyDiameterFilter toNum toStr inputValue)"
    by simp
next
  assume a: "key \<in> set layerRegistry \<and> fld \<noteq> [] \<and> fOp \<noteq> [] \<and> fVal \<noteq> []
        \<and> matchesIgnoringCase ''esriFieldTypeDate'' fType \<and> \<not> isFinite (dateParse fVal)"
  then show b: "buildWhere dateParse toStr (Some fld) (Some fOp) (Some fVal) fType
        = fld @ '' '' @ fOp @ '' NULL''"
    by (intro buildWhere_unparseable_date) simp_all
  from a show "applyAttributeFilter dateParse toStr key (Some fld) fType fOp fVal
        = [SetWhere key (fld @ '' '' @ fOp @ '' NULL''),
           Hint (''Applied: '' @ fld @ '' '' @ fOp @ '' NULL'')]"
    by (simp add: applyAttributeFilter_def b Let_def)
qed

theorem malformed_filter_input_witness:
  "\<not> isFinite (sampleToNum ''abc'')
   \<and> applyDiameterFilter sampleToNum sampleToStr ''abc''
        = [Alert ''Enter a non-negative diameter in mm (e.g., 150).'']
   \<and> \<not> list_ex isQuery (applyDiameterFilter sampleToNum sampleToStr ''abc'')
   \<and> ''reclaimed'' \<in> set layerRegistry
   \<and> matchesIgnoringCase ''esriFieldTypeDate'' ''esriFieldTypeDate''
   \<and> \<not> isFinite (sampleDateParse ''31/31/31'')
   \<and> buildWhere sampleDateParse sampleToStr (Some ''built'') (Some ''<'') (Some ''31/31/31'')
        ''esriFieldTypeDate'' = ''built < NULL''
   \<and> applyAttributeFilter sampleDateParse sampleToStr ''reclaimed'' (Some ''built'')
        ''esriFieldTypeDate'' ''<'' ''31/31/31''
        = [SetWhere ''reclaimed'' ''built < NULL'', Hint ''Applied: built < NULL'']"
proof -
  have h: "\<not> isFinite (sampleToNum ''abc'')" "''reclaimed'' \<in> set layerRegistry"
    "matchesIgnoringCase ''esriFieldTypeDate'' ''esriFieldTypeDate''"
    "\<not> isFinite (sampleDateParse ''31/31/31'')"
    by (simp_all add: sampleToNum_def layerRegistry_def matchesIgnoringCase_def
        sampleDateParse_def)
  from malformed_filter_input [of sampleToNum "''abc''" sampleToStr "''reclaimed''"
      "''built''" "''<''" "''31/31/31''" "''esriFieldTypeDate''" sampleDateParse]
  show ?thesis
    using h by simp
qed

text \<open>
  An unparseable date is not rejected: the handler issues a query and alerts nobody.
\<close>

theorem unparseable_date_not_rejected_counterexample:
  "\<not> isFinite (sampleDateParse ''not a date'')
   \<and> applyAttributeFilter sampleDateParse sampleToStr ''waterMains'' (Some ''installdate'')
        ''esriFieldTypeDate'' ''>='' ''not a date''
        = [SetWhere ''waterMains'' ''installdate >= NULL'',
           Hint ''Applied: installdate >= NULL'']
   \<and> list_ex isQuery
        (applyAttributeFilter sampleDateParse sampleToStr ''waterMains'' (Some ''installdate'')
           ''esriFieldTypeDate'' ''>='' ''not a date'')"
  by (simp add: applyAttributeFilter_def layerRegistry_def buildWhere_def
      matchesIgnoringCase_def toUpperCase_def upperChar_def sampleDateParse_def Let_def)

section \<open>Properties of the scheduler\<close>

lemma trigger_when_idle:
  assumes "idle h"
  shows "pendingAt t (scheduleAnalytics (elapse t h))"
    and "runs (scheduleAnalytics (elapse t h)) = runs h"
  using assms
  by (auto simp: idle_def pendingAt_def scheduleAnalytics_def elapse_def setTimeout_def
      clearTimeout_def Let_def split: option.splits)

lemma trigger_when_pending:
  assumes "pendingAt t h" and "u < t + 350"
  shows "pendingAt u (scheduleAnalytics (elapse u h))"
    and "runs (scheduleAnalytics (elapse u h)) = runs h"
  using assms
  by (auto simp: pendingAt_def scheduleAnalytics_def elapse_def setTimeout_def
      clearTimeout_def Let_def split: option.splits)

lemma triggers_in_burst:
  assumes "burst (t # ts)" and "pendingAt t h"
  shows "pendingAt (last (t # ts)) (triggers ts h) \<and> runs (triggers ts h) = runs h"
  using assms
proof (induction ts arbitrary: t h)
  case Nil
  then show ?case by simp
next
  case (Cons u us)
  from Cons.prems have u: "u < t + 350" and b: "burst (u # us)"
    by simp_all
  from trigger_when_pending [OF Cons.prems(2) u]
  have p: "pendingAt u (scheduleAnalytics (elapse u h))"
    and r: "runs (scheduleAnalytics (elapse u h)) = runs h"
    by simp_all
  from Cons.IH [OF b p] r show ?case
    by simp
qed

lemma pending_fires_once:
  assumes "pendingAt t h"
  shows "runs (elapse T h) = runs h @ (if t + 350 \<le> T then [t + 350] else [])"
  using assms
  by (auto simp: pendingAt_def elapse_def split: option.splits)

text \<open>
  C9. On a host where nothing is pending, a sequence of N \<ge> 1 trigger events in which
  each consecutive pair is separated by strictly less than the quiet interval of 350 ms
  causes exactly one aggregation run, and that run fires one quiet interval after the
  last trigger event: whatever the time T up to which the host is observed, the runs
  added are the single run at (last trigger + 350) if T has reached that time, and none
  before.
\<close>

theorem debounce_single_run:
  assumes "idle h" and "ts \<noteq> []" and "burst ts"
  shows "runs (elapse T (triggers ts h))
           = runs h @ (if last ts + 350 \<le> T then [last ts + 350] else [])"
proof -
  from assms(2) obtain t us where ts: "ts = t # us"
    by (cases ts) simp_all
  from trigger_when_idle [OF assms(1), of t]
  have p: "pendingAt t (scheduleAnalytics (elapse t h))"
    and r: "runs (scheduleAnalytics (elapse t h)) = runs h"
    by simp_all
  from triggers_in_burst [OF assms(3) [unfolded ts] p] r
  have "pendingAt (last ts) (triggers ts h)" and "runs (triggers ts h) = runs h"
    by (simp_all add: ts)
  with pending_fires_once [of "last ts" "triggers ts h" T] show ?thesis
    by simp
qed

theorem debounce_single_run_witness:
  "idle startHost \<and> [100, 200, 549] \<noteq> ([] :: nat list) \<and> burst [100, 200, 549]
   \<and> runs (elapse 898 (triggers [100, 200, 549] startHost)) = []
   \<and> runs (elapse 2000 (triggers [100, 200, 549] startHost)) = [899]"
proof -
  have h: "idle startHost" "[100, 200, 549] \<noteq> ([] :: nat list)" "burst [100, 200, 549]"
    by (simp_all add: idle_def startHost_def)
  from debounce_single_run [OF h, of 898] debounce_single_run [OF h, of 2000]
  show ?thesis
    using h by (simp add: startHost_def)
qed

end
